theory Spec2Isabelle
  imports Complex_Main
begin

section \<open>Numbers\<close>

text \<open>
  The program computes with JavaScript numbers, which are doubles. A finite double is a
  real number, and the model computes with reals. Two values of the source that are not
  real numbers are kept as data: the literal \<^verbatim>\<open>Infinity\<close>, which the simulator stores
  in \<^verbatim>\<open>bestLapTime\<close> and the runtime estimate returns, and \<^verbatim>\<open>null\<close>, written
  as \<open>None\<close>.

  Rounding. Each arithmetic operation of the program returns the double nearest to the
  exact result, and a decimal literal denotes the double nearest to it. Where the program
  decides something by comparing computed numbers or by rounding one to an integer (the
  limiting reagent, the estimated rpm), the model carries this rounding as a parameter
  \<open>rnd\<close>, a function on the reals of which nothing is assumed: every operation on such a
  path is the exact operation followed by \<open>rnd\<close>, and what is proved holds for every
  \<open>rnd\<close>, so for the rounding of doubles as well as for exact arithmetic (\<open>rnd\<close> the
  identity). Literals that are doubles themselves (integers, 1.5, 0.5) are written as they
  are. The simulator and the capacity calculations, whose results vary continuously with
  their inputs, are modelled in exact arithmetic. Overflow beyond the range of doubles is
  outside the model.

  Division by zero. A quotient whose divisor is zero is \<^verbatim>\<open>Infinity\<close>,
  \<^verbatim>\<open>-Infinity\<close> or \<^verbatim>\<open>NaN\<close> in JavaScript and not a real number. Theorems about
  the real-number model that speak about such a quotient assume the divisor to be
  nonzero; what the tick computes when a divisor is zero is modelled separately below,
  over numbers with these three values added.
\<close>

datatype extnum = Fin real | Infinity

text \<open>The comparison \<^verbatim>\<open>x < y\<close> of a finite number with a possibly infinite one.\<close>

fun less_ext :: "real \<Rightarrow> extnum \<Rightarrow> bool" where
  "less_ext x (Fin y) = (x < y)"
| "less_ext x Infinity = True"

subsection \<open>The rounding of doubles\<close>

text \<open>
  The double nearest to a real number: the number is scaled to a significand of 53 bits,
  the significand is rounded to the nearest integer, a half to the even one, and the
  result is scaled back. This is the rounding of the language for all numbers within the
  range of normal doubles. It is the instance of \<open>rnd\<close> at which the program runs.
\<close>

definition round_half_even :: "real \<Rightarrow> int" where
  "round_half_even m =
     (let f = \<lfloor>m\<rfloor> in
      if m - of_int f < 1 / 2 then f
      else if 1 / 2 < m - of_int f then f + 1
      else if even f then f else f + 1)"

definition round_double :: "real \<Rightarrow> real" where
  "round_double x =
     (if x = 0 then 0
      else let e = \<lfloor>log 2 \<bar>x\<bar>\<rfloor> - 52
           in of_int (round_half_even (x / 2 powr of_int e)) * 2 powr of_int e)"

subsection \<open>Numbers with infinities and NaN\<close>









section \<open>The RC car simulator\<close>

subsection \<open>Data\<close>

text \<open>\<^verbatim>\<open>this.state\<close> of \<^verbatim>\<open>RCCarSimulator\<close>.\<close>

record sim_state =
  position :: real
  velocity :: real
  acceleration :: real
  batteryCharge :: real
  lapCount :: nat
  lapTime :: real
  bestLapTime :: extnum
  totalEnergy :: real
  isRunning :: bool

text \<open>\<^verbatim>\<open>this.params\<close>.\<close>

record sim_params =
  mass :: real
  wheelRadius :: real
  motorEfficiency :: real
  frictionCoeff :: real
  airResistance :: real
  maxTorque :: real
  batteryVoltage :: real
  batteryCurrent :: real
  batteryCapacity :: real
  internalR :: real
  throttle :: real

text \<open>
  \<^verbatim>\<open>this.track\<close>; the field \<^verbatim>\<open>length\<close> is written \<open>trackLength\<close>.
\<close>

record sim_track =
  trackLength :: real
  width :: real
  height :: real
  carX :: real
  carAngle :: real

text \<open>
  The simulator object, without the canvas handles and the frame clock that only the
  rendering code reads.
\<close>

record RCCarSimulator =
  state :: sim_state
  params :: sim_params
  track :: sim_track

definition initial_state :: sim_state where
  "initial_state =
     \<lparr>position = 0, velocity = 0, acceleration = 0, batteryCharge = 100, lapCount = 0,
      lapTime = 0, bestLapTime = Infinity, totalEnergy = 0, isRunning = False\<rparr>"

definition default_params :: sim_params where
  "default_params =
     \<lparr>mass = 0.5, wheelRadius = 0.02, motorEfficiency = 0.7, frictionCoeff = 0.3,
      airResistance = 0.05, maxTorque = 0.1, batteryVoltage = 6.0, batteryCurrent = 1.0,
      batteryCapacity = 2000, internalR = 1.2, throttle = 0\<rparr>"

definition default_track :: sim_track where
  "default_track = \<lparr>trackLength = 20, width = 400, height = 300, carX = 0, carAngle = 0\<rparr>"

text \<open>The constructor.\<close>

definition new_RCCarSimulator :: RCCarSimulator where
  "new_RCCarSimulator = \<lparr>state = initial_state, params = default_params, track = default_track\<rparr>"

text \<open>\<^verbatim>\<open>reset()\<close>: a fresh state, and the throttle set to zero.\<close>

definition reset :: "RCCarSimulator \<Rightarrow> RCCarSimulator" where
  "reset sim = sim\<lparr>state := initial_state, params := (params sim)\<lparr>throttle := 0\<rparr>\<rparr>"

subsection \<open>Forces\<close>

definition calculateMotorForce :: "RCCarSimulator \<Rightarrow> real" where
  "calculateMotorForce sim =
     (let torque = maxTorque (params sim) * throttle (params sim);
          force = (torque / wheelRadius (params sim)) * motorEfficiency (params sim)
      in force)"

definition calculateFriction :: "RCCarSimulator \<Rightarrow> real" where
  "calculateFriction sim =
     (let normalForce = mass (params sim) * 9.81;
          friction = frictionCoeff (params sim) * normalForce
      in if velocity (state sim) > 0 then - friction else 0)"

definition calculateAirResistance :: "RCCarSimulator \<Rightarrow> real" where
  "calculateAirResistance sim =
     (let airDrag = airResistance (params sim) * velocity (state sim) * \<bar>velocity (state sim)\<bar>
      in - airDrag)"

definition calculateAcceleration :: "RCCarSimulator \<Rightarrow> real" where
  "calculateAcceleration sim =
     (let motorForce = calculateMotorForce sim;
          friction = calculateFriction sim;
          airDrag = calculateAirResistance sim;
          netForce = motorForce + friction + airDrag;
          acceleration = netForce / mass (params sim)
      in acceleration)"

subsection \<open>The battery\<close>

definition updateBattery :: "real \<Rightarrow> RCCarSimulator \<Rightarrow> RCCarSimulator" where
  "updateBattery dt sim =
     (if throttle (params sim) > 0 then
        let power = batteryVoltage (params sim) * batteryCurrent (params sim) * throttle (params sim);
            energyUsed = power * dt;
            sim1 = sim\<lparr>state := (state sim)\<lparr>totalEnergy := totalEnergy (state sim) + energyUsed\<rparr>\<rparr>;
            fullCapacity = batteryVoltage (params sim1) * (batteryCapacity (params sim1) * 3.6)
        in sim1\<lparr>state := (state sim1)\<lparr>batteryCharge :=
                  max 0 (100 - (totalEnergy (state sim1) / fullCapacity * 100))\<rparr>\<rparr>
      else sim)"

subsection \<open>One tick\<close>

text \<open>
  \<^verbatim>\<open>updatePhysics\<close> is a sequence of assignments to \<^verbatim>\<open>this.state\<close> and
  \<^verbatim>\<open>this.params\<close>. Each block of the sequence is a function from the simulator
  before it to the simulator after it, and the tick applies them in the order of the
  source.

  First block: a dead battery overwrites the configured throttle.
\<close>

definition deadBattery :: "RCCarSimulator \<Rightarrow> RCCarSimulator" where
  "deadBattery sim =
     (if batteryCharge (state sim) \<le> 0
      then sim\<lparr>params := (params sim)\<lparr>throttle := 0\<rparr>\<rparr> else sim)"

text \<open>The new acceleration is stored, then added to the velocity, which is clamped at zero.\<close>

definition updateVelocity :: "real \<Rightarrow> RCCarSimulator \<Rightarrow> RCCarSimulator" where
  "updateVelocity dt sim =
     (let sim1 = sim\<lparr>state := (state sim)\<lparr>acceleration := calculateAcceleration sim\<rparr>\<rparr>;
          sim2 = sim1\<lparr>state := (state sim1)\<lparr>velocity :=
                   velocity (state sim1) + acceleration (state sim1) * dt\<rparr>\<rparr>
      in sim2\<lparr>state := (state sim2)\<lparr>velocity := max 0 (velocity (state sim2))\<rparr>\<rparr>)"

definition updatePosition :: "real \<Rightarrow> RCCarSimulator \<Rightarrow> RCCarSimulator" where
  "updatePosition dt sim =
     sim\<lparr>state := (state sim)\<lparr>position := position (state sim) + velocity (state sim) * dt\<rparr>\<rparr>"

text \<open>The check for lap completion.\<close>

definition lapCompletion :: "RCCarSimulator \<Rightarrow> RCCarSimulator" where
  "lapCompletion sim =
     (if position (state sim) \<ge> trackLength (track sim) then
        let s1 = (state sim)\<lparr>position := position (state sim) - trackLength (track sim)\<rparr>;
            s2 = s1\<lparr>lapCount := lapCount s1 + 1\<rparr>;
            s3 = (if lapTime s2 > 0 \<and> less_ext (lapTime s2) (bestLapTime s2)
                  then s2\<lparr>bestLapTime := Fin (lapTime s2)\<rparr> else s2)
        in sim\<lparr>state := s3\<lparr>lapTime := 0\<rparr>\<rparr>
      else sim)"

definition updateLapTime :: "real \<Rightarrow> RCCarSimulator \<Rightarrow> RCCarSimulator" where
  "updateLapTime dt sim = sim\<lparr>state := (state sim)\<lparr>lapTime := lapTime (state sim) + dt\<rparr>\<rparr>"

definition updatePhysics :: "real \<Rightarrow> RCCarSimulator \<Rightarrow> RCCarSimulator" where
  "updatePhysics dt sim =
     (let sim1 = deadBattery sim;
          sim2 = updateVelocity dt sim1;
          sim3 = updatePosition dt sim2;
          sim4 = lapCompletion sim3;
          sim5 = updateLapTime dt sim4
      in updateBattery dt sim5)"

subsection \<open>The tick when a divisor may be zero\<close>





text \<open>
  A run of ticks, as the animation loop performs them one after the other: the simulator
  before the first tick and after each one.
\<close>

fun ticks :: "real list \<Rightarrow> RCCarSimulator \<Rightarrow> RCCarSimulator list" where
  "ticks [] sim = [sim]"
| "ticks (dt # dts) sim = sim # ticks dts (updatePhysics dt sim)"

subsection \<open>The controls\<close>

text \<open>
  The handlers that \<^verbatim>\<open>setupEventListeners\<close> installs, each applied to the number
  parsed from the slider. They are the only other writers of the parameters and the
  state once the simulator is initialised.
\<close>

definition throttleInput :: "real \<Rightarrow> RCCarSimulator \<Rightarrow> RCCarSimulator" where
  "throttleInput v sim =
     (let sim1 = sim\<lparr>params := (params sim)\<lparr>throttle := v / 100\<rparr>\<rparr>
      in if throttle (params sim1) > 0 \<and> \<not> isRunning (state sim1)
         then sim1\<lparr>state := (state sim1)\<lparr>isRunning := True\<rparr>\<rparr> else sim1)"

definition massInput :: "real \<Rightarrow> RCCarSimulator \<Rightarrow> RCCarSimulator" where
  "massInput v sim = sim\<lparr>params := (params sim)\<lparr>mass := v / 1000\<rparr>\<rparr>"

definition frictionInput :: "real \<Rightarrow> RCCarSimulator \<Rightarrow> RCCarSimulator" where
  "frictionInput v sim = sim\<lparr>params := (params sim)\<lparr>frictionCoeff := v\<rparr>\<rparr>"

definition startStop :: "RCCarSimulator \<Rightarrow> RCCarSimulator" where
  "startStop sim = sim\<lparr>state := (state sim)\<lparr>isRunning := \<not> isRunning (state sim)\<rparr>\<rparr>"

text \<open>
  The simulators that can arise. \<^verbatim>\<open>init\<close> loads stored battery data into the
  parameters before the first frame, so a run starts from the constructor's state with
  some parameters; afterwards the simulator changes by ticks and by the handlers above.
  The relation is generous: it allows a tick with any \<open>dt\<close> and at any moment, where the
  animation loop ticks only while the simulation is running.
\<close>

inductive reachable :: "RCCarSimulator \<Rightarrow> bool" where
  constructed: "reachable (new_RCCarSimulator\<lparr>params := p\<rparr>)"
| tick: "reachable sim \<Longrightarrow> reachable (updatePhysics dt sim)"
| throttle_set: "reachable sim \<Longrightarrow> reachable (throttleInput v sim)"
| mass_set: "reachable sim \<Longrightarrow> reachable (massInput v sim)"
| friction_set: "reachable sim \<Longrightarrow> reachable (frictionInput v sim)"
| toggled: "reachable sim \<Longrightarrow> reachable (startStop sim)"
| was_reset: "reachable sim \<Longrightarrow> reachable (reset sim)"

section \<open>The battery calculator\<close>

subsection \<open>Data\<close>

text \<open>
  \<^verbatim>\<open>CHEMISTRY_CONSTANTS\<close>. The decimal literals that are not doubles stand for the
  doubles nearest to them.
\<close>

record chemistry_constants =
  FARADAY :: real
  M_ZN :: real
  M_MNO2 :: real
  V_ALKALINE :: real
  V_NIMH :: real
  R_INTERNAL_ALKALINE :: real
  R_INTERNAL_NIMH :: real
  CAPACITY_AA_ALKALINE :: real
  CAPACITY_AA_NIMH :: real

definition CHEMISTRY_CONSTANTS :: "(real \<Rightarrow> real) \<Rightarrow> chemistry_constants" where
  "CHEMISTRY_CONSTANTS rnd =
     \<lparr>FARADAY = 96485, M_ZN = rnd 65.38, M_MNO2 = rnd 86.936, V_ALKALINE = 1.5,
      V_NIMH = rnd 1.2, R_INTERNAL_ALKALINE = rnd 0.3, R_INTERNAL_NIMH = rnd 0.02,
      CAPACITY_AA_ALKALINE = 2000, CAPACITY_AA_NIMH = 2000\<rparr>"

text \<open>The two reagent names that the stoichiometric path reports.\<close>

datatype reagent = Zn | MnO2

text \<open>The object built by \<^verbatim>\<open>calculateFromMass\<close> (its \<^verbatim>\<open>method\<close> is 'stoichiometry').\<close>

record stoichiometry_result =
  molesZn :: real
  molesMnO2 :: real
  limitingReagent :: reagent
  excessReagent :: reagent
  excessMoles :: real
  molesReaction :: real
  molesElectrons :: real
  chargeC :: real
  voltage :: real
  energyJ :: real
  energyWh :: real
  capacityMah :: real
  electronsPerRxn :: real

text \<open>
  The object built by \<^verbatim>\<open>calculateFromCapacity\<close> (its \<^verbatim>\<open>method\<close> is
  'commercial'). Its fields \<^verbatim>\<open>chargeC\<close>, \<^verbatim>\<open>energyJ\<close> and \<^verbatim>\<open>energyWh\<close>
  are written \<open>packChargeC\<close>, \<open>packEnergyJ\<close> and \<open>packEnergyWh\<close>, since the
  stoichiometric object has fields of the same names.
\<close>

record commercial_result =
  cellCapacityMah :: real
  cellVoltage :: real
  cellCount :: real
  seriesCount :: real
  parallelCount :: real
  packVoltage :: real
  packCapacityMah :: real
  packChargeC :: real
  packEnergyJ :: real
  packEnergyWh :: real

text \<open>
  What \<^verbatim>\<open>this.results\<close> holds: the empty object of the constructor, or the object of
  the last calculation, told apart by its \<^verbatim>\<open>method\<close>.
\<close>

datatype results = NoResults | Stoichiometry stoichiometry_result | Commercial commercial_result

record BatteryCalculator =
  constants :: chemistry_constants
  results :: results

definition new_BatteryCalculator :: "(real \<Rightarrow> real) \<Rightarrow> BatteryCalculator" where
  "new_BatteryCalculator rnd = \<lparr>constants = CHEMISTRY_CONSTANTS rnd, results = NoResults\<rparr>"

subsection \<open>Calculations\<close>

text \<open>
  Both calculations store the object they build in \<^verbatim>\<open>this.results\<close> and return it:
  the model returns the object together with the calculator after the call. The default
  arguments of the source (voltage 1.5, two electrons per reaction, counts of 1) are
  passed explicitly. Where an argument of the source has the name of a field of a result
  object, the definition binds its arguments by \<open>\<lambda>\<close>. The stoichiometric path ends
  in a comparison of two computed numbers, so each of its operations is followed by the
  rounding \<open>rnd\<close>.
\<close>

definition stoichiometry ::
  "(real \<Rightarrow> real) \<Rightarrow> chemistry_constants \<Rightarrow> real \<Rightarrow> real \<Rightarrow> real \<Rightarrow> real \<Rightarrow> stoichiometry_result" where
  "stoichiometry = (\<lambda>rnd c znMass mno2Mass voltage electronsPerRxn.
      let F = FARADAY c; Mzn = M_ZN c; Mmno2 = M_MNO2 c;
          molesZn = rnd (znMass / Mzn);
          molesMnO2 = rnd (mno2Mass / Mmno2);
          znNeeded = rnd (molesMnO2 / 2);
          mno2Needed = rnd (molesZn * 2);
          (limitingReagent, molesReaction, excessMoles, excessReagent) =
            (if molesZn \<le> znNeeded
             then (Zn, molesZn, rnd (molesMnO2 - mno2Needed), MnO2)
             else (MnO2, rnd (molesMnO2 / 2), rnd (molesZn - znNeeded), Zn));
          molesElectrons = rnd (molesReaction * electronsPerRxn);
          chargeC = rnd (molesElectrons * F);
          energyJ = rnd (voltage * chargeC);
          energyWh = rnd (energyJ / 3600);
          capacityAh = rnd (chargeC / 3600);
          capacityMah = rnd (capacityAh * 1000)
      in \<lparr>molesZn = molesZn, molesMnO2 = molesMnO2, limitingReagent = limitingReagent,
          excessReagent = excessReagent, excessMoles = excessMoles,
          molesReaction = molesReaction, molesElectrons = molesElectrons, chargeC = chargeC,
          voltage = voltage, energyJ = energyJ, energyWh = energyWh,
          capacityMah = capacityMah, electronsPerRxn = electronsPerRxn\<rparr>)"

definition calculateFromMass ::
  "(real \<Rightarrow> real) \<Rightarrow> real \<Rightarrow> real \<Rightarrow> real \<Rightarrow> real \<Rightarrow> BatteryCalculator
     \<Rightarrow> stoichiometry_result \<times> BatteryCalculator" where
  "calculateFromMass = (\<lambda>rnd znMass mno2Mass voltage electronsPerRxn calc.
      let r = stoichiometry rnd (constants calc) znMass mno2Mass voltage electronsPerRxn
      in (r, calc\<lparr>results := Stoichiometry r\<rparr>))"

definition commercial :: "real \<Rightarrow> real \<Rightarrow> real \<Rightarrow> real \<Rightarrow> real \<Rightarrow> commercial_result" where
  "commercial = (\<lambda>capacityMah voltage cellCount seriesCount parallelCount.
      let capacityAh = capacityMah / 1000;
          chargeC = capacityAh * 3600;
          packVoltage = voltage * seriesCount;
          packCapacityMah = capacityMah * parallelCount;
          packChargeC = chargeC * parallelCount;
          energyJ = packVoltage * packChargeC;
          energyWh = energyJ / 3600
      in \<lparr>cellCapacityMah = capacityMah, cellVoltage = voltage, cellCount = cellCount,
          seriesCount = seriesCount, parallelCount = parallelCount,
          packVoltage = packVoltage, packCapacityMah = packCapacityMah,
          packChargeC = packChargeC, packEnergyJ = energyJ, packEnergyWh = energyWh\<rparr>)"

definition calculateFromCapacity ::
  "real \<Rightarrow> real \<Rightarrow> real \<Rightarrow> real \<Rightarrow> real \<Rightarrow> BatteryCalculator \<Rightarrow> commercial_result \<times> BatteryCalculator" where
  "calculateFromCapacity = (\<lambda>capacityMah voltage cellCount seriesCount parallelCount calc.
      let r = commercial capacityMah voltage cellCount seriesCount parallelCount
      in (r, calc\<lparr>results := Commercial r\<rparr>))"

text \<open>
  \<^verbatim>\<open>generateWorkSteps\<close> reads \<^verbatim>\<open>this.results\<close>: it returns the empty string unless
  the stored object comes from the stoichiometric path. Only this guard is modelled, as
  the test whether the returned text is empty.
\<close>

definition generateWorkSteps_empty :: "BatteryCalculator \<Rightarrow> bool" where
  "generateWorkSteps_empty calc =
     (case results calc of Stoichiometry r \<Rightarrow> False | _ \<Rightarrow> True)"

text \<open>
  The object returned by \<^verbatim>\<open>estimateRuntime\<close>. The early return carries only
  \<^verbatim>\<open>hours\<close> and \<^verbatim>\<open>minutes\<close>; the fields it leaves out are \<open>None\<close>.
\<close>

record runtime_result =
  hours :: extnum
  minutes :: extnum
  runtime_capacityMah :: "real option"
  runtime_currentA :: "real option"
  runtime_note :: "string option"

definition estimateRuntime :: "real \<Rightarrow> real \<Rightarrow> runtime_result" where
  "estimateRuntime = (\<lambda>capacityMah currentA.
      if currentA \<le> 0
      then \<lparr>hours = Infinity, minutes = Infinity, runtime_capacityMah = None,
            runtime_currentA = None, runtime_note = None\<rparr>
      else
        let capacityAh = capacityMah / 1000;
            hours = capacityAh / currentA;
            minutes = hours * 60
        in \<lparr>hours = Fin hours, minutes = Fin minutes, runtime_capacityMah = Some capacityMah,
            runtime_currentA = Some currentA,
            runtime_note = Some ''Approximate - actual runtime depends on discharge curve and cutoff voltage''\<rparr>)"

section \<open>The motor speed estimator\<close>

text \<open>
  An entry of \<^verbatim>\<open>MOTOR_PRESETS\<close>, without its two display texts. The no-load speed of a
  preset may be \<^verbatim>\<open>null\<close>. The decimal literals that are not doubles stand for the
  doubles nearest to them.
\<close>

record motor_preset =
  armatureR :: real
  coilTurns :: real
  coilRadius :: real
  coilLength :: real
  ratedVoltage :: real
  noLoadRPM :: "real option"

definition small_dc_motor :: "(real \<Rightarrow> real) \<Rightarrow> motor_preset" where
  "small_dc_motor rnd =
     \<lparr>armatureR = 3, coilTurns = 50, coilRadius = rnd 0.01, coilLength = rnd 0.02,
      ratedVoltage = 6, noLoadRPM = Some 6000\<rparr>"

definition hobby_motor :: "(real \<Rightarrow> real) \<Rightarrow> motor_preset" where
  "hobby_motor rnd =
     \<lparr>armatureR = 0.5, coilTurns = 30, coilRadius = rnd 0.018, coilLength = rnd 0.035,
      ratedVoltage = rnd 7.2, noLoadRPM = Some 15000\<rparr>"

definition demo_solenoid :: "(real \<Rightarrow> real) \<Rightarrow> motor_preset" where
  "demo_solenoid rnd =
     \<lparr>armatureR = 2, coilTurns = 100, coilRadius = rnd 0.015, coilLength = rnd 0.05,
      ratedVoltage = 6, noLoadRPM = None\<rparr>"

text \<open>
  \<^verbatim>\<open>Math.round\<close>: the nearest integer, a half rounded up, as a number. It is computed
  exactly: the result is an integer that a double holds.
\<close>

definition Math_round :: "real \<Rightarrow> real" where
  "Math_round x = of_int \<lfloor>x + 1 / 2\<rfloor>"

text \<open>
  \<^verbatim>\<open>!noLoadRPM\<close> holds for \<^verbatim>\<open>null\<close> and for the number zero.
\<close>

definition falsy :: "real option \<Rightarrow> bool" where
  "falsy v = (case v of None \<Rightarrow> True | Some x \<Rightarrow> x = 0)"

text \<open>
  \<^verbatim>\<open>estimateSpeed\<close> of an estimator built with the given preset. The early return
  carries only \<^verbatim>\<open>rpm\<close>, which is \<^verbatim>\<open>null\<close>. The three fields that the source
  formats with \<^verbatim>\<open>toFixed\<close> are kept as the numbers that are formatted; the two fixed
  texts of the object are left out. The rpm is a computed number rounded to an integer, so
  each operation before \<^verbatim>\<open>Math.round\<close> is followed by the rounding \<open>rnd\<close>;
  \<^verbatim>\<open>Math.min\<close> and \<^verbatim>\<open>Math.max\<close> return one of their arguments.
\<close>

record speed_result =
  rpm :: "real option"
  speedPercent :: "real option"
  effectiveVoltage :: "real option"
  backEMFvoltage :: "real option"

definition estimateSpeed ::
  "(real \<Rightarrow> real) \<Rightarrow> motor_preset \<Rightarrow> real \<Rightarrow> real \<Rightarrow> speed_result" where
  "estimateSpeed rnd preset current supplyVoltage =
     (if falsy (noLoadRPM preset)
      then \<lparr>rpm = None, speedPercent = None, effectiveVoltage = None, backEMFvoltage = None\<rparr>
      else
        let voltageRatio = min (rnd (supplyVoltage / ratedVoltage preset)) 1.5;
            backEMFvoltage = rnd (current * armatureR preset);
            effectiveVoltage = rnd (supplyVoltage - backEMFvoltage);
            speedRatio = max 0 (rnd (effectiveVoltage / ratedVoltage preset));
            rpm = rnd (rnd (the (noLoadRPM preset) * speedRatio) * voltageRatio)
        in \<lparr>rpm = Some (Math_round rpm), speedPercent = Some (rnd (speedRatio * 100)),
            effectiveVoltage = Some effectiveVoltage, backEMFvoltage = Some backEMFvoltage\<rparr>)"

section \<open>Bookkeeping of the battery, and sample simulators\<close>

text \<open>
  The charge that the simulator shows is the one that the energy used so far determines.
  The constructor and \<^verbatim>\<open>reset\<close> establish this relation, and the ticks and the
  controls keep it: none of them writes the voltage or the capacity of the battery.
\<close>

definition battery_bookkeeping :: "RCCarSimulator \<Rightarrow> bool" where
  "battery_bookkeeping sim \<longleftrightarrow>
     batteryCharge (state sim) =
       max 0 (100 - totalEnergy (state sim)
                    / (batteryVoltage (params sim) * (batteryCapacity (params sim) * 3.6)) * 100)"

text \<open>
  The bookkeeping relation together with the signs under which energy is drawn: a
  throttle that is not negative and a positive voltage, current and capacity.
\<close>

definition battery_ok :: "RCCarSimulator \<Rightarrow> bool" where
  "battery_ok sim \<longleftrightarrow>
     battery_bookkeeping sim \<and> 0 \<le> throttle (params sim) \<and> 0 < batteryVoltage (params sim)
     \<and> 0 < batteryCurrent (params sim) \<and> 0 < batteryCapacity (params sim)"

text \<open>
  A simulator whose battery has just run empty while the throttle slider is at full:
  43200 J is the full capacity of the default pack.
\<close>

definition dead_battery_sim :: RCCarSimulator where
  "dead_battery_sim =
     new_RCCarSimulator
       \<lparr>state := initial_state\<lparr>batteryCharge := 0, totalEnergy := 43200, isRunning := True\<rparr>,
        params := default_params\<lparr>throttle := 1\<rparr>\<rparr>"

text \<open>A fresh simulator, started with the throttle at full.\<close>

definition full_throttle_sim :: RCCarSimulator where
  "full_throttle_sim =
     new_RCCarSimulator
       \<lparr>state := initial_state\<lparr>isRunning := True\<rparr>, params := default_params\<lparr>throttle := 1\<rparr>\<rparr>"

text \<open>The same with the mass set to half a gram.\<close>

definition light_car_sim :: RCCarSimulator where
  "light_car_sim =
     new_RCCarSimulator
       \<lparr>state := initial_state\<lparr>isRunning := True\<rparr>,
        params := default_params\<lparr>mass := 0.0005, throttle := 1\<rparr>\<rparr>"

text \<open>
  A car one millimetre before the line, rolling at 0.02 m/s with nothing that brakes or
  drives it, five seconds into its first lap.
\<close>

definition lap_sim :: RCCarSimulator where
  "lap_sim =
     new_RCCarSimulator
       \<lparr>state := initial_state\<lparr>position := 19.999, velocity := 0.02, lapTime := 5,
                                 isRunning := True\<rparr>,
        params := default_params\<lparr>frictionCoeff := 0, airResistance := 0\<rparr>\<rparr>"





section \<open>Evaluating the rounding of doubles\<close>

text \<open>
  A number whose product with a power of two lies between \<open>2\<^sup>5\<^sup>2\<close> and \<open>2\<^sup>5\<^sup>3\<close> is rounded
  at that scale.
\<close>

lemma le_log2:
  fixes y :: real
  assumes "2 ^ a \<le> y"
  shows "real a \<le> log 2 y"
proof -
  have "0 < y" using assms by (smt (verit) zero_less_power)
  then have "log 2 (2 ^ a) \<le> log 2 y"
    using assms by (subst log_le_cancel_iff) simp_all
  then show ?thesis by (simp add: log_nat_power)
qed

lemma log2_less:
  fixes y :: real
  assumes "0 < y" and "y < 2 ^ a"
  shows "log 2 y < real a"
proof -
  have "log 2 y < log 2 (2 ^ a)"
    using assms by (subst log_less_cancel_iff) simp_all
  then show ?thesis by (simp add: log_nat_power)
qed

lemma floor_log2_eq:
  fixes x :: real and n :: nat
  assumes "2 ^ 52 \<le> x * 2 ^ n" and "x * 2 ^ n < 2 ^ 53"
  shows "\<lfloor>log 2 \<bar>x\<bar>\<rfloor> = 52 - int n"
proof -
  have pos: "0 < x"
  proof (rule ccontr)
    assume "\<not> 0 < x"
    then have "x * 2 ^ n \<le> 0" by (simp add: mult_le_0_iff)
    with assms(1) show False by (smt (verit) zero_less_power)
  qed
  then have pos2: "0 < x * 2 ^ n" by simp
  have l: "log 2 (x * 2 ^ n) = log 2 x + real n"
    using pos by (simp add: log_mult log_nat_power)
  have lo: "real 52 \<le> log 2 x + real n"
    using le_log2 [OF assms(1)] by (simp only: l)
  have hi: "log 2 x + real n < real 53"
    using log2_less [OF pos2 assms(2)] by (simp only: l)
  have "\<lfloor>log 2 x\<rfloor> = 52 - int n"
    using lo hi by (intro floor_unique) simp_all
  then show ?thesis using pos by simp
qed

lemma round_double_eval:
  fixes x :: real and n :: nat
  assumes "2 ^ 52 \<le> x * 2 ^ n" and "x * 2 ^ n < 2 ^ 53"
  shows "round_double x = of_int (round_half_even (x * 2 ^ n)) / 2 ^ n"
proof -
  have nz: "x \<noteq> 0" using assms(1) by auto
  have e: "\<lfloor>log 2 \<bar>x\<bar>\<rfloor> - 52 = - int n"
    using floor_log2_eq [OF assms] by simp
  have p: "2 powr of_int (- int n) = 1 / (2 :: real) ^ n"
    by (simp add: powr_minus powr_realpow divide_inverse)
  show ?thesis
    using nz by (simp add: round_double_def Let_def e p del: of_int_minus)
qed

section \<open>What one tick does to each field\<close>

text \<open>
  Each block of the tick is characterised by its effect on the three parts of the
  simulator; the effect of the whole tick on a field follows by rewriting with these.
\<close>

lemma deadBattery_simps:
  "state (deadBattery sim) = state sim"
  "track (deadBattery sim) = track sim"
  "params (deadBattery sim) =
     (if batteryCharge (state sim) \<le> 0 then (params sim)\<lparr>throttle := 0\<rparr> else params sim)"
  by (simp_all add: deadBattery_def)

lemma updateVelocity_simps:
  "params (updateVelocity dt sim) = params sim"
  "track (updateVelocity dt sim) = track sim"
  "state (updateVelocity dt sim) =
     (state sim)\<lparr>acceleration := calculateAcceleration sim,
                  velocity := max 0 (velocity (state sim) + calculateAcceleration sim * dt)\<rparr>"
  by (simp_all add: updateVelocity_def Let_def)

lemma updatePosition_simps:
  "params (updatePosition dt sim) = params sim"
  "track (updatePosition dt sim) = track sim"
  "state (updatePosition dt sim) =
     (state sim)\<lparr>position := position (state sim) + velocity (state sim) * dt\<rparr>"
  by (simp_all add: updatePosition_def)

lemma lapCompletion_simps:
  "params (lapCompletion sim) = params sim"
  "track (lapCompletion sim) = track sim"
  by (simp_all add: lapCompletion_def Let_def)

lemma lapCompletion_state:
  "state (lapCompletion sim) =
     (if trackLength (track sim) \<le> position (state sim)
      then (state sim)\<lparr>position := position (state sim) - trackLength (track sim),
                        lapCount := lapCount (state sim) + 1,
                        bestLapTime := (if 0 < lapTime (state sim)
                                           \<and> less_ext (lapTime (state sim)) (bestLapTime (state sim))
                                        then Fin (lapTime (state sim)) else bestLapTime (state sim)),
                        lapTime := 0\<rparr>
      else state sim)"
  by (simp add: lapCompletion_def Let_def)

lemma updateLapTime_simps:
  "params (updateLapTime dt sim) = params sim"
  "track (updateLapTime dt sim) = track sim"
  "state (updateLapTime dt sim) = (state sim)\<lparr>lapTime := lapTime (state sim) + dt\<rparr>"
  by (simp_all add: updateLapTime_def)

lemma updateBattery_simps:
  "params (updateBattery dt sim) = params sim"
  "track (updateBattery dt sim) = track sim"
  by (simp_all add: updateBattery_def Let_def)

lemma updateBattery_other:
  "position (state (updateBattery dt sim)) = position (state sim)"
  "velocity (state (updateBattery dt sim)) = velocity (state sim)"
  "acceleration (state (updateBattery dt sim)) = acceleration (state sim)"
  "lapCount (state (updateBattery dt sim)) = lapCount (state sim)"
  "lapTime (state (updateBattery dt sim)) = lapTime (state sim)"
  "bestLapTime (state (updateBattery dt sim)) = bestLapTime (state sim)"
  "isRunning (state (updateBattery dt sim)) = isRunning (state sim)"
  by (simp_all add: updateBattery_def Let_def)

lemma updateBattery_totalEnergy:
  "totalEnergy (state (updateBattery dt sim)) =
     (if 0 < throttle (params sim)
      then totalEnergy (state sim)
           + batteryVoltage (params sim) * batteryCurrent (params sim) * throttle (params sim) * dt
      else totalEnergy (state sim))"
  by (simp add: updateBattery_def Let_def)

lemma record_steps:
  "state (sim\<lparr>state := s\<rparr>) = s"
  "params (sim\<lparr>state := s\<rparr>) = params sim"
  "batteryCharge (s\<lparr>batteryCharge := x\<rparr>) = x"
  "totalEnergy (s\<lparr>totalEnergy := y\<rparr>) = y"
  by simp_all

lemma updateBattery_batteryCharge_explicit:
  "batteryCharge (state (updateBattery dt sim)) =
     (if 0 < throttle (params sim)
      then max 0 (100 - ((totalEnergy (state sim)
                 + batteryVoltage (params sim) * batteryCurrent (params sim) * throttle (params sim) * dt)
                 / (batteryVoltage (params sim) * (batteryCapacity (params sim) * 3.6)) * 100))
      else batteryCharge (state sim))"
proof (cases "0 < throttle (params sim)")
  case True
  then show ?thesis
    unfolding updateBattery_def Let_def by (simp only: record_steps if_True)
next
  case False
  then show ?thesis
    unfolding updateBattery_def Let_def by (simp only: if_False)
qed

lemma updateBattery_batteryCharge:
  "batteryCharge (state (updateBattery dt sim)) =
     (if 0 < throttle (params sim)
      then max 0 (100 - totalEnergy (state (updateBattery dt sim))
                 / (batteryVoltage (params sim) * (batteryCapacity (params sim) * 3.6)) * 100)
      else batteryCharge (state sim))"
proof (cases "0 < throttle (params sim)")
  case True
  then show ?thesis
    by (simp only: updateBattery_batteryCharge_explicit updateBattery_totalEnergy if_True)
next
  case False
  then show ?thesis
    by (simp only: updateBattery_batteryCharge_explicit if_False)
qed

lemmas block_simps = deadBattery_simps updateVelocity_simps updatePosition_simps
  lapCompletion_simps lapCompletion_state updateLapTime_simps updateBattery_simps updateBattery_other updateBattery_totalEnergy

text \<open>The whole tick, field by field.\<close>

lemma updatePhysics_params:
  "params (updatePhysics dt sim) =
     (if batteryCharge (state sim) \<le> 0 then (params sim)\<lparr>throttle := 0\<rparr> else params sim)"
  by (simp add: updatePhysics_def Let_def block_simps)

lemma updatePhysics_track: "track (updatePhysics dt sim) = track sim"
  by (simp add: updatePhysics_def Let_def block_simps)

lemma updatePhysics_acceleration:
  "acceleration (state (updatePhysics dt sim)) = calculateAcceleration (deadBattery sim)"
  by (simp add: updatePhysics_def Let_def block_simps)

lemma updatePhysics_velocity:
  "velocity (state (updatePhysics dt sim)) =
     max 0 (velocity (state sim) + calculateAcceleration (deadBattery sim) * dt)"
  by (simp add: updatePhysics_def Let_def block_simps)

lemma updatePhysics_position:
  "position (state (updatePhysics dt sim)) =
     (if trackLength (track sim) \<le> position (state sim) + velocity (state (updatePhysics dt sim)) * dt
      then position (state sim) + velocity (state (updatePhysics dt sim)) * dt - trackLength (track sim)
      else position (state sim) + velocity (state (updatePhysics dt sim)) * dt)"
  by (simp add: updatePhysics_def Let_def block_simps)

lemma updatePhysics_lapCount:
  "lapCount (state (updatePhysics dt sim)) =
     (if trackLength (track sim) \<le> position (state sim) + velocity (state (updatePhysics dt sim)) * dt
      then lapCount (state sim) + 1 else lapCount (state sim))"
  by (simp add: updatePhysics_def Let_def block_simps)

lemma updatePhysics_lapTime:
  "lapTime (state (updatePhysics dt sim)) =
     (if trackLength (track sim) \<le> position (state sim) + velocity (state (updatePhysics dt sim)) * dt
      then 0 + dt else lapTime (state sim) + dt)"
  by (simp add: updatePhysics_def Let_def block_simps)

lemma updatePhysics_bestLapTime:
  "bestLapTime (state (updatePhysics dt sim)) =
     (if trackLength (track sim) \<le> position (state sim) + velocity (state (updatePhysics dt sim)) * dt
         \<and> 0 < lapTime (state sim) \<and> less_ext (lapTime (state sim)) (bestLapTime (state sim))
      then Fin (lapTime (state sim)) else bestLapTime (state sim))"
  by (simp add: updatePhysics_def Let_def block_simps)

lemma updatePhysics_totalEnergy:
  "totalEnergy (state (updatePhysics dt sim)) =
     (if 0 < throttle (params (updatePhysics dt sim))
      then totalEnergy (state sim)
           + batteryVoltage (params sim) * batteryCurrent (params sim) * throttle (params sim) * dt
      else totalEnergy (state sim))"
  by (simp add: updatePhysics_def Let_def block_simps)

lemma updatePhysics_batteryCharge:
  "batteryCharge (state (updatePhysics dt sim)) =
     (if 0 < throttle (params (updatePhysics dt sim))
      then max 0 (100 - totalEnergy (state (updatePhysics dt sim))
                          / (batteryVoltage (params sim) * (batteryCapacity (params sim) * 3.6)) * 100)
      else batteryCharge (state sim))"
  by (simp only: updatePhysics_def Let_def updateBattery_batteryCharge) (simp add: block_simps)

lemma updatePhysics_isRunning:
  "isRunning (state (updatePhysics dt sim)) = isRunning (state sim)"
  by (simp add: updatePhysics_def Let_def block_simps)

lemma updatePhysics_battery_params:
  "batteryVoltage (params (updatePhysics dt sim)) = batteryVoltage (params sim)"
  "batteryCurrent (params (updatePhysics dt sim)) = batteryCurrent (params sim)"
  "batteryCapacity (params (updatePhysics dt sim)) = batteryCapacity (params sim)"
  "throttle (params (updatePhysics dt sim)) =
     (if batteryCharge (state sim) \<le> 0 then 0 else throttle (params sim))"
  by (simp_all add: updatePhysics_params)

section \<open>Energy and charge along a run\<close>

text \<open>
  One tick does not lower the energy used and does not raise the charge, and it keeps the
  bookkeeping relation; the same then holds between any two simulators of a run.
\<close>

lemma tick_energy_mono:
  assumes "battery_ok sim" "0 < dt"
  shows "totalEnergy (state sim) \<le> totalEnergy (state (updatePhysics dt sim))"
proof (cases "0 < throttle (params (updatePhysics dt sim))")
  case True
  have "0 \<le> batteryVoltage (params sim) * batteryCurrent (params sim) * throttle (params sim) * dt"
    using assms by (simp add: battery_ok_def)
  with True show ?thesis by (simp add: updatePhysics_totalEnergy)
next
  case False
  then show ?thesis by (simp add: updatePhysics_totalEnergy)
qed

lemma tick_bookkeeping:
  assumes "battery_bookkeeping sim"
  shows "battery_bookkeeping (updatePhysics dt sim)"
proof (cases "0 < throttle (params (updatePhysics dt sim))")
  case True
  then show ?thesis
    unfolding battery_bookkeeping_def
    by (simp only: updatePhysics_batteryCharge updatePhysics_battery_params(1,3) if_True)
next
  case False
  have "batteryCharge (state (updatePhysics dt sim)) = batteryCharge (state sim)"
    using False by (simp only: updatePhysics_batteryCharge if_False)
  moreover have "totalEnergy (state (updatePhysics dt sim)) = totalEnergy (state sim)"
    using False by (simp only: updatePhysics_totalEnergy if_False)
  ultimately show ?thesis
    using assms unfolding battery_bookkeeping_def
    by (simp only: updatePhysics_battery_params(1,3))
qed

lemma tick_battery_ok:
  assumes "battery_ok sim"
  shows "battery_ok (updatePhysics dt sim)"
proof -
  have "battery_bookkeeping sim"
    using assms by (simp add: battery_ok_def)
  then have "battery_bookkeeping (updatePhysics dt sim)"
    by (rule tick_bookkeeping)
  then show ?thesis
    using assms by (simp add: battery_ok_def updatePhysics_battery_params)
qed

lemma charge_formula_mono:
  fixes e e' full :: real
  assumes "0 < full" "e \<le> e'"
  shows "max 0 (100 - e' / full * 100) \<le> max 0 (100 - e / full * 100)"
proof -
  have "e / full \<le> e' / full"
    using assms by (simp add: divide_right_mono)
  then have "100 - e' / full * 100 \<le> 100 - e / full * 100"
    by linarith
  then show ?thesis by (rule max.mono [OF order_refl])
qed

lemma tick_charge_mono:
  assumes "battery_ok sim" "0 < dt"
  shows "batteryCharge (state (updatePhysics dt sim)) \<le> batteryCharge (state sim)"
proof (cases "0 < throttle (params (updatePhysics dt sim))")
  case True
  let ?full = "batteryVoltage (params sim) * (batteryCapacity (params sim) * 3.6)"
  have full: "0 < ?full" using assms by (simp add: battery_ok_def)
  have "max 0 (100 - totalEnergy (state (updatePhysics dt sim)) / ?full * 100)
           \<le> max 0 (100 - totalEnergy (state sim) / ?full * 100)"
    using full tick_energy_mono [OF assms] by (rule charge_formula_mono)
  moreover have "batteryCharge (state sim) = max 0 (100 - totalEnergy (state sim) / ?full * 100)"
    using assms by (simp only: battery_ok_def battery_bookkeeping_def)
  moreover have "batteryCharge (state (updatePhysics dt sim))
        = max 0 (100 - totalEnergy (state (updatePhysics dt sim)) / ?full * 100)"
    using True by (simp only: updatePhysics_batteryCharge if_True)
  ultimately show ?thesis by (simp only:)
next
  case False
  then show ?thesis by (simp add: updatePhysics_batteryCharge)
qed

lemma ticks_bounds:
  assumes "battery_ok sim" "\<forall>dt \<in> set dts. 0 < dt" "x \<in> set (ticks dts sim)"
  shows "totalEnergy (state sim) \<le> totalEnergy (state x)
       \<and> batteryCharge (state x) \<le> batteryCharge (state sim)"
  using assms
proof (induction dts arbitrary: sim)
  case Nil
  then show ?case by simp
next
  case (Cons dt dts)
  show ?case
  proof (cases "x = sim")
    case True
    then show ?thesis by simp
  next
    case False
    with Cons.prems have x: "x \<in> set (ticks dts (updatePhysics dt sim))" by simp
    have dt: "0 < dt" and dts: "\<forall>d \<in> set dts. 0 < d" using Cons.prems by simp_all
    have ok: "battery_ok (updatePhysics dt sim)" using Cons.prems(1) by (rule tick_battery_ok)
    from Cons.IH [OF ok dts x] tick_energy_mono [OF Cons.prems(1) dt]
      tick_charge_mono [OF Cons.prems(1) dt]
    show ?thesis by linarith
  qed
qed

lemma ticks_sorted:
  assumes "battery_ok sim" "\<forall>dt \<in> set dts. 0 < dt"
  shows "sorted_wrt (\<lambda>a b. totalEnergy (state a) \<le> totalEnergy (state b)) (ticks dts sim)
       \<and> sorted_wrt (\<lambda>a b. batteryCharge (state b) \<le> batteryCharge (state a)) (ticks dts sim)"
  using assms
proof (induction dts arbitrary: sim)
  case Nil
  then show ?case by simp
next
  case (Cons dt dts)
  have dts: "\<forall>d \<in> set dts. 0 < d" using Cons.prems by simp
  have ok: "battery_ok (updatePhysics dt sim)" using Cons.prems(1) by (rule tick_battery_ok)
  have "\<forall>x \<in> set (ticks dts (updatePhysics dt sim)).
          totalEnergy (state sim) \<le> totalEnergy (state x)
        \<and> batteryCharge (state x) \<le> batteryCharge (state sim)"
    using ticks_bounds [OF Cons.prems, of _] by simp
  with Cons.IH [OF ok dts] show ?case by simp
qed

section \<open>Simulators that can arise\<close>

lemmas sim_defs = new_RCCarSimulator_def initial_state_def default_params_def default_track_def

lemmas force_defs = deadBattery_def calculateAcceleration_def calculateMotorForce_def
  calculateFriction_def calculateAirResistance_def Let_def

lemma reachable_bookkeeping:
  assumes "reachable sim"
  shows "battery_bookkeeping sim"
  using assms
proof (induction rule: reachable.induct)
  case (constructed p)
  show ?case
    by (simp add: battery_bookkeeping_def new_RCCarSimulator_def initial_state_def)
next
  case (tick sim dt)
  then show ?case by (simp add: tick_bookkeeping)
next
  case (throttle_set sim v)
  then show ?case by (simp add: battery_bookkeeping_def throttleInput_def Let_def)
next
  case (mass_set sim v)
  then show ?case by (simp add: battery_bookkeeping_def massInput_def)
next
  case (friction_set sim v)
  then show ?case by (simp add: battery_bookkeeping_def frictionInput_def)
next
  case (toggled sim)
  then show ?case by (simp add: battery_bookkeeping_def startStop_def)
next
  case (was_reset sim)
  show ?case by (simp add: battery_bookkeeping_def reset_def initial_state_def)
qed

lemma full_throttle_sim_reachable: "reachable full_throttle_sim"
proof -
  have eq: "full_throttle_sim = throttleInput 100 (new_RCCarSimulator\<lparr>params := default_params\<rparr>)"
    by (simp add: full_throttle_sim_def throttleInput_def Let_def new_RCCarSimulator_def
        initial_state_def default_params_def)
  show ?thesis
    unfolding eq by (intro reachable.throttle_set reachable.constructed)
qed

lemma light_car_sim_reachable: "reachable light_car_sim"
proof -
  have eq: "light_car_sim
      = massInput (1 / 2) (throttleInput 100 (new_RCCarSimulator\<lparr>params := default_params\<rparr>))"
    by (simp add: light_car_sim_def massInput_def throttleInput_def Let_def new_RCCarSimulator_def
        initial_state_def default_params_def)
  show ?thesis
    unfolding eq by (intro reachable.mass_set reachable.throttle_set reachable.constructed)
qed


section \<open>The two models of the tick agree where no divisor is zero\<close>





section \<open>Claims about the simulator\<close>

subsection \<open>C1: a dead battery and the throttle\<close>

text \<open>
  Claim C1, as amended. When \<open>batteryCharge \<le> 0\<close> at the entry of a tick, the tick
  computes its forces and its battery update with throttle 0: the stored acceleration is
  the one computed with throttle 0 (the motor force is then zero), and the energy used and
  the charge do not change. The tick obtains this by overwriting the configured throttle
  in the parameters with 0; every other parameter keeps its value. When the charge is
  positive at entry, the tick changes no parameter.
\<close>

theorem updatePhysics_dead_battery:
  "(batteryCharge (state sim) \<le> 0 \<longrightarrow>
      params (updatePhysics dt sim) = (params sim)\<lparr>throttle := 0\<rparr>
    \<and> acceleration (state (updatePhysics dt sim))
        = calculateAcceleration (sim\<lparr>params := (params sim)\<lparr>throttle := 0\<rparr>\<rparr>)
    \<and> (wheelRadius (params sim) \<noteq> 0 \<longrightarrow>
         calculateMotorForce (sim\<lparr>params := (params sim)\<lparr>throttle := 0\<rparr>\<rparr>) = 0)
    \<and> totalEnergy (state (updatePhysics dt sim)) = totalEnergy (state sim)
    \<and> batteryCharge (state (updatePhysics dt sim)) = batteryCharge (state sim))
   \<and> (0 < batteryCharge (state sim) \<longrightarrow> params (updatePhysics dt sim) = params sim)"
proof (intro conjI impI)
  assume dead: "batteryCharge (state sim) \<le> 0"
  show p: "params (updatePhysics dt sim) = (params sim)\<lparr>throttle := 0\<rparr>"
    using dead by (simp add: updatePhysics_params)
  show "acceleration (state (updatePhysics dt sim))
        = calculateAcceleration (sim\<lparr>params := (params sim)\<lparr>throttle := 0\<rparr>\<rparr>)"
    using dead by (simp add: updatePhysics_acceleration deadBattery_def)
  show "calculateMotorForce (sim\<lparr>params := (params sim)\<lparr>throttle := 0\<rparr>\<rparr>) = 0"
    by (simp add: calculateMotorForce_def)
  have "\<not> 0 < throttle (params (updatePhysics dt sim))"
    by (simp add: p)
  then show "totalEnergy (state (updatePhysics dt sim)) = totalEnergy (state sim)"
    and "batteryCharge (state (updatePhysics dt sim)) = batteryCharge (state sim)"
    by (simp_all only: updatePhysics_totalEnergy updatePhysics_batteryCharge if_False)
next
  assume "0 < batteryCharge (state sim)"
  then show "params (updatePhysics dt sim) = params sim"
    by (simp add: updatePhysics_params)
qed

text \<open>
  The theorem at the simulator with an empty battery, and at one with a full battery.
\<close>

theorem updatePhysics_dead_battery_witness:
  "batteryCharge (state dead_battery_sim) \<le> 0
   \<and> wheelRadius (params dead_battery_sim) \<noteq> 0
   \<and> throttle (params dead_battery_sim) = 1
   \<and> throttle (params (updatePhysics (1 / 10) dead_battery_sim)) = 0
   \<and> calculateMotorForce (dead_battery_sim\<lparr>params := (params dead_battery_sim)\<lparr>throttle := 0\<rparr>\<rparr>) = 0
   \<and> totalEnergy (state (updatePhysics (1 / 10) dead_battery_sim)) = 43200
   \<and> batteryCharge (state (updatePhysics (1 / 10) dead_battery_sim)) = 0
   \<and> 0 < batteryCharge (state full_throttle_sim)
   \<and> params (updatePhysics (1 / 10) full_throttle_sim) = params full_throttle_sim"
  using updatePhysics_dead_battery [of dead_battery_sim "1 / 10"]
    updatePhysics_dead_battery [of full_throttle_sim "1 / 10"]
  by (simp add: dead_battery_sim_def full_throttle_sim_def sim_defs)

text \<open>
  Claim C1 as stated says that the tick leaves the configured throttle unchanged. At the
  simulator with an empty battery and the slider at full, the parameters after the tick
  differ from those before it.
\<close>

theorem updatePhysics_overwrites_throttle:
  "batteryCharge (state dead_battery_sim) \<le> 0
   \<and> params (updatePhysics (1 / 10) dead_battery_sim) \<noteq> params dead_battery_sim"
  by (simp add: updatePhysics_params dead_battery_sim_def sim_defs)

subsection \<open>C2: the position stays on the track\<close>

text \<open>
  Claim C2 as stated fails for a car that covers two track lengths in one tick, since the
  tick subtracts the track length once. With the throttle slider at full and the mass
  slider at half a gram, a fresh car is at 70 m after a first tick of a tenth of a second,
  and is left at 50 m on a track of 20 m.
\<close>

theorem updatePhysics_position_escapes:
  "reachable light_car_sim
   \<and> 0 \<le> position (state light_car_sim)
   \<and> position (state light_car_sim) < trackLength (track light_car_sim)
   \<and> (0 :: real) < 1 / 10 \<and> (1 / 10 :: real) \<le> 0.1
   \<and> position (state (updatePhysics (1 / 10) light_car_sim)) = 50
   \<and> \<not> position (state (updatePhysics (1 / 10) light_car_sim))
         < trackLength (track (updatePhysics (1 / 10) light_car_sim))"
  by (simp add: light_car_sim_reachable)
    (simp add: updatePhysics_position updatePhysics_velocity updatePhysics_track force_defs
      light_car_sim_def sim_defs)

text \<open>
  Claim C2, as amended. If \<open>0 \<le> position < trackLength\<close> before a tick with
  \<open>dt > 0\<close>, and the distance covered in the tick, the new velocity times \<open>dt\<close>, is
  less than the track length, then \<open>0 \<le> position < trackLength\<close> holds after the tick.
  The mass and the wheel radius are nonzero, so that the acceleration is a number.
\<close>

theorem updatePhysics_position_range:
  assumes "0 \<le> position (state sim)" and "position (state sim) < trackLength (track sim)"
    and "0 < dt"
    and "mass (params sim) \<noteq> 0" and "wheelRadius (params sim) \<noteq> 0"
    and "velocity (state (updatePhysics dt sim)) * dt < trackLength (track sim)"
  shows "0 \<le> position (state (updatePhysics dt sim))
       \<and> position (state (updatePhysics dt sim)) < trackLength (track (updatePhysics dt sim))"
proof -
  have "0 \<le> velocity (state (updatePhysics dt sim))"
    by (simp add: updatePhysics_velocity)
  then have "0 \<le> velocity (state (updatePhysics dt sim)) * dt"
    using assms(3) by simp
  then show ?thesis
    using assms(1,2,6) by (simp add: updatePhysics_position updatePhysics_track)
qed

text \<open>The theorem at the first tick of a fresh simulator under full throttle.\<close>

theorem updatePhysics_position_range_witness:
  "0 \<le> position (state full_throttle_sim)
   \<and> position (state full_throttle_sim) < trackLength (track full_throttle_sim)
   \<and> (0 :: real) < 1 / 10
   \<and> mass (params full_throttle_sim) \<noteq> 0 \<and> wheelRadius (params full_throttle_sim) \<noteq> 0
   \<and> velocity (state (updatePhysics (1 / 10) full_throttle_sim)) * (1 / 10)
       < trackLength (track full_throttle_sim)
   \<and> 0 \<le> position (state (updatePhysics (1 / 10) full_throttle_sim))
   \<and> position (state (updatePhysics (1 / 10) full_throttle_sim))
       < trackLength (track (updatePhysics (1 / 10) full_throttle_sim))"
proof -
  have v: "velocity (state (updatePhysics (1 / 10) full_throttle_sim)) = 7 / 10"
    by (simp add: updatePhysics_velocity force_defs full_throttle_sim_def sim_defs)
  have h: "0 \<le> position (state full_throttle_sim)"
    "position (state full_throttle_sim) < trackLength (track full_throttle_sim)"
    "mass (params full_throttle_sim) \<noteq> 0" "wheelRadius (params full_throttle_sim) \<noteq> 0"
    by (simp_all add: full_throttle_sim_def sim_defs)
  have d: "velocity (state (updatePhysics (1 / 10) full_throttle_sim)) * (1 / 10)
       < trackLength (track full_throttle_sim)"
    by (simp add: v) (simp add: full_throttle_sim_def sim_defs)
  show ?thesis
    using updatePhysics_position_range [OF h(1,2) _ h(3,4) d] h d by simp
qed

subsection \<open>C3: completing a lap\<close>

text \<open>
  Claim C3. In a tick whose updated position, the old position plus the new velocity
  times \<open>dt\<close>, reaches or exceeds the track length: the track length is subtracted from
  the position, so that the overshoot is kept (from one millimetre before the line, an
  advance of two millimetres ends one millimetre after it); the lap count grows by
  exactly one; the best lap time becomes the lap time just finished if and only if that
  time is positive and less than the best so far, and is unchanged otherwise (so it
  changes only to a finite time smaller than the best so far); and the lap time after the
  tick is \<open>dt\<close>. The mass and the wheel radius are nonzero, so that the
  acceleration is a number.
\<close>

theorem updatePhysics_lap_completion:
  assumes "trackLength (track sim)
             \<le> position (state sim) + velocity (state (updatePhysics dt sim)) * dt"
    and "mass (params sim) \<noteq> 0" and "wheelRadius (params sim) \<noteq> 0"
  shows "position (state (updatePhysics dt sim))
           = position (state sim) + velocity (state (updatePhysics dt sim)) * dt
             - trackLength (track sim)
       \<and> (position (state sim) = trackLength (track sim) - 0.001
            \<and> velocity (state (updatePhysics dt sim)) * dt = 0.002
            \<longrightarrow> position (state (updatePhysics dt sim)) = 0.001)
       \<and> lapCount (state (updatePhysics dt sim)) = lapCount (state sim) + 1
       \<and> bestLapTime (state (updatePhysics dt sim))
           = (if 0 < lapTime (state sim) \<and> less_ext (lapTime (state sim)) (bestLapTime (state sim))
              then Fin (lapTime (state sim)) else bestLapTime (state sim))
       \<and> (bestLapTime (state (updatePhysics dt sim)) \<noteq> bestLapTime (state sim)
            \<longrightarrow> less_ext (lapTime (state sim)) (bestLapTime (state sim)))
       \<and> lapTime (state (updatePhysics dt sim)) = dt"
proof -
  have p: "position (state (updatePhysics dt sim))
           = position (state sim) + velocity (state (updatePhysics dt sim)) * dt
             - trackLength (track sim)"
    using assms(1) by (simp only: updatePhysics_position if_True)
  have "position (state (updatePhysics dt sim)) = 0.001"
    if "position (state sim) = trackLength (track sim) - 0.001"
      and "velocity (state (updatePhysics dt sim)) * dt = 0.002"
    using that p by linarith
  moreover have "lapCount (state (updatePhysics dt sim)) = lapCount (state sim) + 1"
    using assms(1) by (simp only: updatePhysics_lapCount if_True)
  moreover have "bestLapTime (state (updatePhysics dt sim))
           = (if 0 < lapTime (state sim) \<and> less_ext (lapTime (state sim)) (bestLapTime (state sim))
              then Fin (lapTime (state sim)) else bestLapTime (state sim))"
    using assms(1) by (simp add: updatePhysics_bestLapTime)
  moreover have "less_ext (lapTime (state sim)) (bestLapTime (state sim))"
    if "bestLapTime (state (updatePhysics dt sim)) \<noteq> bestLapTime (state sim)"
    using that by (simp add: updatePhysics_bestLapTime split: if_splits)
  moreover have "lapTime (state (updatePhysics dt sim)) = dt"
    using assms(1) by (simp add: updatePhysics_lapTime)
  ultimately show ?thesis using p by blast
qed

text \<open>The theorem at the car one millimetre before the line.\<close>

theorem updatePhysics_lap_completion_witness:
  "trackLength (track lap_sim)
     \<le> position (state lap_sim) + velocity (state (updatePhysics (1 / 10) lap_sim)) * (1 / 10)
   \<and> mass (params lap_sim) \<noteq> 0 \<and> wheelRadius (params lap_sim) \<noteq> 0
   \<and> position (state lap_sim) = trackLength (track lap_sim) - 0.001
   \<and> velocity (state (updatePhysics (1 / 10) lap_sim)) * (1 / 10) = 0.002
   \<and> position (state (updatePhysics (1 / 10) lap_sim)) = 0.001
   \<and> lapCount (state (updatePhysics (1 / 10) lap_sim)) = 1
   \<and> bestLapTime (state (updatePhysics (1 / 10) lap_sim)) = Fin 5
   \<and> lapTime (state (updatePhysics (1 / 10) lap_sim)) = 1 / 10"
proof -
  have v: "velocity (state (updatePhysics (1 / 10) lap_sim)) = 2 / 100"
    by (simp add: updatePhysics_velocity force_defs lap_sim_def sim_defs)
  have s: "position (state lap_sim) = 19999 / 1000" "trackLength (track lap_sim) = 20"
    "lapCount (state lap_sim) = 0" "lapTime (state lap_sim) = 5"
    "bestLapTime (state lap_sim) = Infinity"
    "mass (params lap_sim) \<noteq> 0" "wheelRadius (params lap_sim) \<noteq> 0"
    by (simp_all add: lap_sim_def sim_defs)
  have h: "trackLength (track lap_sim)
     \<le> position (state lap_sim) + velocity (state (updatePhysics (1 / 10) lap_sim)) * (1 / 10)"
    by (simp add: v s)
  show ?thesis
    using updatePhysics_lap_completion [OF h s(6,7)] h by (simp add: v s)
qed

subsection \<open>C4: velocity and charge are never negative\<close>




subsection \<open>C5: energy grows, charge falls\<close>

text \<open>
  Claim C5. Along any run of ticks with \<open>dt > 0\<close>, started with a positive throttle and
  a positive battery voltage, current and capacity from any simulator that can arise, the
  energy used never decreases and the charge never increases: this holds between any two
  simulators of the run, the earlier and the later. The run may go on after the battery
  is empty, when the tick has set the throttle to zero and both values stay as they are.
\<close>

theorem ticks_monotone:
  assumes "reachable sim"
    and "0 < throttle (params sim)"
    and "0 < batteryVoltage (params sim)" and "0 < batteryCurrent (params sim)"
    and "0 < batteryCapacity (params sim)"
    and "\<forall>dt \<in> set dts. 0 < dt"
  shows "sorted_wrt (\<lambda>a b. totalEnergy (state a) \<le> totalEnergy (state b)) (ticks dts sim)
       \<and> sorted_wrt (\<lambda>a b. batteryCharge (state b) \<le> batteryCharge (state a)) (ticks dts sim)"
proof -
  have "battery_bookkeeping sim"
    using assms(1) by (rule reachable_bookkeeping)
  then have "battery_ok sim"
    using assms(2-5) by (simp add: battery_ok_def)
  then show ?thesis
    using assms(6) by (rule ticks_sorted)
qed

text \<open>The theorem at two ticks of a fresh simulator under full throttle.\<close>

theorem ticks_monotone_witness:
  "reachable full_throttle_sim
   \<and> 0 < throttle (params full_throttle_sim)
   \<and> 0 < batteryVoltage (params full_throttle_sim)
   \<and> 0 < batteryCurrent (params full_throttle_sim)
   \<and> 0 < batteryCapacity (params full_throttle_sim)
   \<and> list_all (\<lambda>dt. 0 < dt) [1 / 10, 1 / 20 :: real]
   \<and> sorted_wrt (\<lambda>a b. totalEnergy (state a) \<le> totalEnergy (state b))
        (ticks [1 / 10, 1 / 20] full_throttle_sim)
   \<and> sorted_wrt (\<lambda>a b. batteryCharge (state b) \<le> batteryCharge (state a))
        (ticks [1 / 10, 1 / 20] full_throttle_sim)
   \<and> totalEnergy (state (updatePhysics (1 / 10) full_throttle_sim)) = 6 / 10"
proof -
  have b: "reachable full_throttle_sim"
    by (rule full_throttle_sim_reachable)
  have h: "0 < throttle (params full_throttle_sim)"
    "0 < batteryVoltage (params full_throttle_sim)"
    "0 < batteryCurrent (params full_throttle_sim)"
    "0 < batteryCapacity (params full_throttle_sim)"
    by (simp_all add: full_throttle_sim_def sim_defs)
  have d: "\<forall>dt \<in> set [1 / 10, 1 / 20 :: real]. 0 < dt"
    by simp
  have e: "totalEnergy (state (updatePhysics (1 / 10) full_throttle_sim)) = 6 / 10"
    by (simp add: updatePhysics_totalEnergy updatePhysics_params full_throttle_sim_def sim_defs)
  show ?thesis
    using ticks_monotone [OF b h d] b h e by simp
qed

section \<open>Claims about the battery calculator\<close>

lemmas chem_defs = calculateFromMass_def stoichiometry_def calculateFromCapacity_def
  commercial_def Let_def

lemmas rd_eval = round_half_even_def Let_def

text \<open>The reagent that \<^verbatim>\<open>calculateFromMass\<close> reports, in one equation.\<close>

lemma limitingReagent_eq:
  "limitingReagent (fst (calculateFromMass rnd zn mn v e calc))
     = (if rnd (zn / M_ZN (constants calc)) \<le> rnd (rnd (mn / M_MNO2 (constants calc)) / 2)
        then Zn else MnO2)"
  by (simp add: chem_defs)

text \<open>
  The doubles of the two molar masses, and the numbers that the program computes from the
  masses used below.
\<close>

lemma double_M_ZN: "round_double 65.38 = 4600708494335672 / 2 ^ 46"
  by (subst round_double_eval [where n = 46]) (simp_all add: rd_eval)

lemma double_M_MNO2: "round_double 86.936 = 6117577143829398 / 2 ^ 46"
  by (subst round_double_eval [where n = 46]) (simp_all add: rd_eval)

lemma double_molesZn:
  "round_double (16345 / 1024 / (4600708494335672 / 2 ^ 46)) = 8796093022208001 / 2 ^ 55"
  by (subst round_double_eval [where n = 55]) (simp_all add: rd_eval)

lemma double_molesMnO2:
  "round_double (43468 / 1024 / (6117577143829398 / 2 ^ 46)) = 8796093022207999 / 2 ^ 54"
  by (subst round_double_eval [where n = 54]) (simp_all add: rd_eval)

lemma double_znNeeded:
  "round_double (8796093022207999 / 2 ^ 54 / 2) = 8796093022207999 / 2 ^ 55"
  by (subst round_double_eval [where n = 55]) (simp_all add: rd_eval)

lemma double_typed_zn: "round_double 6.538 = 7361133590937076 / 2 ^ 50"
  by (subst round_double_eval [where n = 50]) (simp_all add: rd_eval)

lemma double_typed_mn: "round_double 17.3872 = 4894061715063518 / 2 ^ 48"
  by (subst round_double_eval [where n = 48]) (simp_all add: rd_eval)

lemma double_typed_molesZn:
  "round_double (7361133590937076 / 2 ^ 50 / (4600708494335672 / 2 ^ 46))
     = 7205759403792794 / 2 ^ 56"
  by (subst round_double_eval [where n = 56]) (simp_all add: rd_eval)

lemma double_typed_molesMnO2:
  "round_double (4894061715063518 / 2 ^ 48 / (6117577143829398 / 2 ^ 46))
     = 7205759403792793 / 2 ^ 55"
  by (subst round_double_eval [where n = 55]) (simp_all add: rd_eval)

lemma double_typed_znNeeded:
  "round_double (7205759403792793 / 2 ^ 55 / 2) = 7205759403792793 / 2 ^ 56"
  by (subst round_double_eval [where n = 56]) (simp_all add: rd_eval)

lemma double_typed_mn2: "round_double 173.872 = 6117577143829398 / 2 ^ 45"
  by (subst round_double_eval [where n = 45]) (simp_all add: rd_eval)

lemma double_one:
  "round_double (4600708494335672 / 2 ^ 46 / (4600708494335672 / 2 ^ 46)) = 1"
  by (subst round_double_eval [where n = 52]) (simp_all add: rd_eval)

lemma double_two:
  "round_double (6117577143829398 / 2 ^ 45 / (6117577143829398 / 2 ^ 46)) = 2"
  by (subst round_double_eval [where n = 51]) (simp_all add: rd_eval)

lemma double_half_two: "round_double (2 / 2) = 1"
  by (subst round_double_eval [where n = 52]) (simp_all add: rd_eval)

lemma double_gram_zn:
  "round_double (1 / (4600708494335672 / 2 ^ 46)) = 8817080946825077 / 2 ^ 59"
  by (subst round_double_eval [where n = 59]) (simp_all add: rd_eval)

lemma double_gram_mn:
  "round_double (2 / (6117577143829398 / 2 ^ 46)) = 6630863535283697 / 2 ^ 58"
  by (subst round_double_eval [where n = 58]) (simp_all add: rd_eval)

lemma double_gram_need:
  "round_double (6630863535283697 / 2 ^ 58 / 2) = 6630863535283697 / 2 ^ 59"
  by (subst round_double_eval [where n = 59]) (simp_all add: rd_eval)

subsection \<open>C6: the limiting reagent\<close>

text \<open>
  Claim C6 as stated says that zinc is limiting if and only if
  \<open>znMass / 65.38 \<le> (mno2Mass / 86.936) / 2\<close>, an exact tie being resolved to zinc.
  The masses 15.9619140625 g and 42.44921875 g are doubles, and for them both sides are
  0.244140625; the program computes 0.24414062500000003 for the first and
  0.24414062499999997 for the second, and reports manganese dioxide. The typed masses
  6.538 g and 17.3872 g, whose quotients are both 0.1, are resolved in the same way.
\<close>

theorem calculateFromMass_tie_to_MnO2:
  "(16345 / 1024 :: real) / 65.38 = ((43468 / 1024) / 86.936) / 2
   \<and> limitingReagent (fst (calculateFromMass round_double (16345 / 1024) (43468 / 1024) 1.5 2
                              (new_BatteryCalculator round_double))) = MnO2
   \<and> (6.538 :: real) / 65.38 = (17.3872 / 86.936) / 2
   \<and> limitingReagent (fst (calculateFromMass round_double (round_double 6.538)
                              (round_double 17.3872) 1.5 2
                              (new_BatteryCalculator round_double))) = MnO2"
proof -
  have c: "M_ZN (constants (new_BatteryCalculator round_double)) = round_double 65.38"
    "M_MNO2 (constants (new_BatteryCalculator round_double)) = round_double 86.936"
    by (simp_all add: new_BatteryCalculator_def CHEMISTRY_CONSTANTS_def)
  have t1: "(16345 / 1024 :: real) / 65.38 = ((43468 / 1024) / 86.936) / 2"
    by simp
  have "\<not> (8796093022208001 / 2 ^ 55 :: real) \<le> 8796093022207999 / 2 ^ 55"
    by simp
  then have l1: "limitingReagent (fst (calculateFromMass round_double (16345 / 1024)
                    (43468 / 1024) 1.5 2 (new_BatteryCalculator round_double))) = MnO2"
    by (simp only: limitingReagent_eq c double_M_ZN double_M_MNO2 double_molesZn
        double_molesMnO2 double_znNeeded if_False)
  have t2: "(6.538 :: real) / 65.38 = (17.3872 / 86.936) / 2"
    by simp
  have "\<not> (7205759403792794 / 2 ^ 56 :: real) \<le> 7205759403792793 / 2 ^ 56"
    by simp
  then have l2: "limitingReagent (fst (calculateFromMass round_double (round_double 6.538)
                    (round_double 17.3872) 1.5 2 (new_BatteryCalculator round_double))) = MnO2"
    by (simp only: limitingReagent_eq c double_M_ZN double_M_MNO2 double_typed_zn
        double_typed_mn double_typed_molesZn double_typed_molesMnO2 double_typed_znNeeded
        if_False)
  show ?thesis
    using t1 l1 t2 l2 by (simp only: simp_thms)
qed

text \<open>
  Claim C6, as amended. \<^verbatim>\<open>calculateFromMass\<close> computes the moles of zinc as
  \<open>znMass / 65.38\<close> and the moles of manganese dioxide as \<open>mno2Mass / 86.936\<close> in
  the arithmetic of the program, and reports zinc as the limiting reagent if and only if
  the computed moles of zinc are \<open>\<le>\<close> the computed moles of manganese dioxide divided
  by 2, and manganese dioxide otherwise; a tie of these two computed numbers is resolved
  to zinc; and the moles of reaction are the moles of the limiting reagent divided by its
  coefficient, 1 for zinc and 2 for manganese dioxide. Each quotient is followed by the
  rounding \<open>rnd\<close>, and the statement holds for every \<open>rnd\<close> and for all masses.
\<close>

theorem calculateFromMass_limiting_reagent:
  assumes "constants calc = CHEMISTRY_CONSTANTS rnd"
  shows "molesZn (fst (calculateFromMass rnd zn mn v e calc)) = rnd (zn / rnd 65.38)
       \<and> molesMnO2 (fst (calculateFromMass rnd zn mn v e calc)) = rnd (mn / rnd 86.936)
       \<and> (limitingReagent (fst (calculateFromMass rnd zn mn v e calc)) = Zn
            \<longleftrightarrow> molesZn (fst (calculateFromMass rnd zn mn v e calc))
                  \<le> rnd (molesMnO2 (fst (calculateFromMass rnd zn mn v e calc)) / 2))
       \<and> (limitingReagent (fst (calculateFromMass rnd zn mn v e calc)) = MnO2
            \<longleftrightarrow> \<not> molesZn (fst (calculateFromMass rnd zn mn v e calc))
                  \<le> rnd (molesMnO2 (fst (calculateFromMass rnd zn mn v e calc)) / 2))
       \<and> (molesZn (fst (calculateFromMass rnd zn mn v e calc))
             = rnd (molesMnO2 (fst (calculateFromMass rnd zn mn v e calc)) / 2)
            \<longrightarrow> limitingReagent (fst (calculateFromMass rnd zn mn v e calc)) = Zn)
       \<and> molesReaction (fst (calculateFromMass rnd zn mn v e calc))
           = (case limitingReagent (fst (calculateFromMass rnd zn mn v e calc)) of
                Zn \<Rightarrow> molesZn (fst (calculateFromMass rnd zn mn v e calc)) / 1
              | MnO2 \<Rightarrow> rnd (molesMnO2 (fst (calculateFromMass rnd zn mn v e calc)) / 2))"
  using assms by (simp add: chem_defs CHEMISTRY_CONSTANTS_def)

text \<open>
  The theorem in the arithmetic of doubles: at the typed masses 65.38 g and 173.872 g the
  computed moles are 1 and 2, a tie, and zinc is reported; at the documented example of
  1 g of zinc and 2 g of manganese dioxide, manganese dioxide is reported.
\<close>

theorem calculateFromMass_limiting_reagent_witness:
  "constants (new_BatteryCalculator round_double) = CHEMISTRY_CONSTANTS round_double
   \<and> molesZn (fst (calculateFromMass round_double (round_double 65.38) (round_double 173.872)
                     1.5 2 (new_BatteryCalculator round_double))) = 1
   \<and> molesMnO2 (fst (calculateFromMass round_double (round_double 65.38) (round_double 173.872)
                     1.5 2 (new_BatteryCalculator round_double))) = 2
   \<and> limitingReagent (fst (calculateFromMass round_double (round_double 65.38)
                              (round_double 173.872) 1.5 2
                              (new_BatteryCalculator round_double))) = Zn
   \<and> molesReaction (fst (calculateFromMass round_double (round_double 65.38)
                            (round_double 173.872) 1.5 2
                            (new_BatteryCalculator round_double))) = 1
   \<and> limitingReagent (fst (calculateFromMass round_double 1 2 1.5 2
                              (new_BatteryCalculator round_double))) = MnO2"
proof -
  have c: "constants (new_BatteryCalculator round_double) = CHEMISTRY_CONSTANTS round_double"
    by (simp add: new_BatteryCalculator_def)
  let ?tie = "fst (calculateFromMass round_double (round_double 65.38) (round_double 173.872)
                     1.5 2 (new_BatteryCalculator round_double))"
  let ?gram = "fst (calculateFromMass round_double 1 2 1.5 2 (new_BatteryCalculator round_double))"
  note tie = calculateFromMass_limiting_reagent
    [OF c, of "round_double 65.38" "round_double 173.872" "1.5" 2]
  note gram = calculateFromMass_limiting_reagent [OF c, of 1 2 "1.5" 2]
  have z: "molesZn ?tie = 1"
    using tie by (simp only: double_M_ZN double_one)
  have m: "molesMnO2 ?tie = 2"
    using tie by (simp only: double_M_MNO2 double_typed_mn2 double_two)
  have l: "limitingReagent ?tie = Zn"
    using tie by (simp only: z m double_half_two) simp
  have r: "molesReaction ?tie = 1"
    using tie by (simp only: l z reagent.case)
  have gz: "molesZn ?gram = 8817080946825077 / 2 ^ 59"
    using gram by (simp only: double_M_ZN double_gram_zn)
  have gm: "molesMnO2 ?gram = 6630863535283697 / 2 ^ 58"
    using gram by (simp only: double_M_MNO2 double_gram_mn)
  have "\<not> (8817080946825077 / 2 ^ 59 :: real) \<le> 6630863535283697 / 2 ^ 59"
    by simp
  then have g: "limitingReagent ?gram = MnO2"
    using gram by (simp only: gz gm double_gram_need) simp
  show ?thesis
    using c z m l r g by simp
qed

subsection \<open>C7: the commercial path\<close>

text \<open>
  Claim C7. \<^verbatim>\<open>calculateFromCapacity\<close> returns the pack voltage
  \<open>cellVoltage \<times> seriesCount\<close>, the pack capacity \<open>capacityMah \<times> parallelCount\<close>, the pack
  charge \<open>(capacityMah / 1000 \<times> 3600) \<times> parallelCount\<close>, the energy
  \<open>packVoltage \<times> packCharge\<close> in joules and that energy divided by 3600 in watt-hours;
  for 2000 mAh, 1.5 V, four cells in series and one in parallel these are 6.0 V,
  2000 mAh, 43200 J and 12.0 Wh.
\<close>

theorem calculateFromCapacity_pack:
  "packVoltage (fst (calculateFromCapacity cap v n s p calc)) = v * s
   \<and> packCapacityMah (fst (calculateFromCapacity cap v n s p calc)) = cap * p
   \<and> packChargeC (fst (calculateFromCapacity cap v n s p calc)) = (cap / 1000 * 3600) * p
   \<and> packEnergyJ (fst (calculateFromCapacity cap v n s p calc))
       = packVoltage (fst (calculateFromCapacity cap v n s p calc))
         * packChargeC (fst (calculateFromCapacity cap v n s p calc))
   \<and> packEnergyWh (fst (calculateFromCapacity cap v n s p calc))
       = packEnergyJ (fst (calculateFromCapacity cap v n s p calc)) / 3600
   \<and> packVoltage (fst (calculateFromCapacity 2000 1.5 n 4 1 calc)) = 6.0
   \<and> packCapacityMah (fst (calculateFromCapacity 2000 1.5 n 4 1 calc)) = 2000
   \<and> packEnergyJ (fst (calculateFromCapacity 2000 1.5 n 4 1 calc)) = 43200
   \<and> packEnergyWh (fst (calculateFromCapacity 2000 1.5 n 4 1 calc)) = 12.0"
  by (simp add: chem_defs)

subsection \<open>C8: what a calculation leaves behind\<close>

text \<open>
  Claim C8 as stated says that a calculation leaves the observable state of the
  calculator unchanged and does not change the result of any later call. Both
  calculations store their result in \<^verbatim>\<open>this.results\<close>: a fresh calculator differs
  from the calculator after a call, and \<^verbatim>\<open>generateWorkSteps\<close>, which returns the empty
  text on a fresh calculator, does not after \<^verbatim>\<open>calculateFromMass\<close>.
\<close>

theorem calculations_change_results:
  "results (snd (calculateFromMass round_double 1 2 1.5 2 (new_BatteryCalculator round_double)))
     \<noteq> results (new_BatteryCalculator round_double)
   \<and> snd (calculateFromCapacity 2000 1.5 4 4 1 (new_BatteryCalculator round_double))
       \<noteq> new_BatteryCalculator round_double
   \<and> generateWorkSteps_empty (new_BatteryCalculator round_double)
   \<and> \<not> generateWorkSteps_empty
         (snd (calculateFromMass round_double 1 2 1.5 2 (new_BatteryCalculator round_double)))"
  by (simp add: chem_defs new_BatteryCalculator_def generateWorkSteps_empty_def)

text \<open>
  Claim C8, as amended. The result of \<^verbatim>\<open>calculateFromMass\<close> and of
  \<^verbatim>\<open>calculateFromCapacity\<close> depends only on the arguments of the call and on the
  constants of the calculator, not on what it has stored; the call replaces the stored
  \<^verbatim>\<open>results\<close> by the object it returns and leaves the constants as they are; and an
  earlier call of either function does not change what a later call of either function
  returns. This holds whatever the rounding \<open>rnd\<close> of the arithmetic is.
\<close>

theorem calculations_store_results:
  assumes "constants calc' = constants calc"
  shows "fst (calculateFromMass rnd zn mn v e calc') = fst (calculateFromMass rnd zn mn v e calc)
       \<and> fst (calculateFromCapacity cap v n s p calc') = fst (calculateFromCapacity cap v n s p calc)
       \<and> snd (calculateFromMass rnd zn mn v e calc)
           = calc\<lparr>results := Stoichiometry (fst (calculateFromMass rnd zn mn v e calc))\<rparr>
       \<and> snd (calculateFromCapacity cap v n s p calc)
           = calc\<lparr>results := Commercial (fst (calculateFromCapacity cap v n s p calc))\<rparr>
       \<and> constants (snd (calculateFromMass rnd zn mn v e calc)) = constants calc
       \<and> constants (snd (calculateFromCapacity cap v n s p calc)) = constants calc
       \<and> fst (calculateFromMass rnd zn mn v e (snd (calculateFromMass rnd zn0 mn0 v0 e0 calc)))
           = fst (calculateFromMass rnd zn mn v e calc)
       \<and> fst (calculateFromMass rnd zn mn v e (snd (calculateFromCapacity cap0 v0 n0 s0 p0 calc)))
           = fst (calculateFromMass rnd zn mn v e calc)
       \<and> fst (calculateFromCapacity cap v n s p (snd (calculateFromMass rnd zn0 mn0 v0 e0 calc)))
           = fst (calculateFromCapacity cap v n s p calc)
       \<and> fst (calculateFromCapacity cap v n s p (snd (calculateFromCapacity cap0 v0 n0 s0 p0 calc)))
           = fst (calculateFromCapacity cap v n s p calc)"
  using assms by (simp add: chem_defs)

text \<open>The theorem at a fresh calculator and at one that holds an earlier result.\<close>

theorem calculations_store_results_witness:
  "constants (new_BatteryCalculator round_double\<lparr>results := Commercial (commercial 2000 1.5 4 4 1)\<rparr>)
     = constants (new_BatteryCalculator round_double)
   \<and> fst (calculateFromMass round_double 1 2 1.5 2
            (new_BatteryCalculator round_double\<lparr>results := Commercial (commercial 2000 1.5 4 4 1)\<rparr>))
       = fst (calculateFromMass round_double 1 2 1.5 2 (new_BatteryCalculator round_double))
   \<and> results (snd (calculateFromCapacity 2000 1.5 4 4 1 (new_BatteryCalculator round_double)))
       = Commercial (fst (calculateFromCapacity 2000 1.5 4 4 1 (new_BatteryCalculator round_double)))
   \<and> constants (snd (calculateFromCapacity 2000 1.5 4 4 1 (new_BatteryCalculator round_double)))
       = CHEMISTRY_CONSTANTS round_double"
proof -
  have c: "constants (new_BatteryCalculator round_double\<lparr>results := Commercial (commercial 2000 1.5 4 4 1)\<rparr>)
     = constants (new_BatteryCalculator round_double)"
    by simp
  show ?thesis
    using calculations_store_results [OF c, of round_double 1 2 "1.5" 2 2000 4 4 1] c
    by (simp add: new_BatteryCalculator_def)
qed

subsection \<open>C10: the runtime estimate\<close>

text \<open>
  Claim C10. \<^verbatim>\<open>estimateRuntime\<close> always returns an object: for \<open>currentA \<le> 0\<close> its
  hours and minutes are \<^verbatim>\<open>Infinity\<close>, and for \<open>currentA > 0\<close> its hours are
  \<open>(capacityMah / 1000) / currentA\<close>.
\<close>

theorem estimateRuntime_cases:
  "(currentA \<le> 0 \<longrightarrow> hours (estimateRuntime cap currentA) = Infinity
                     \<and> minutes (estimateRuntime cap currentA) = Infinity)
   \<and> (0 < currentA \<longrightarrow> hours (estimateRuntime cap currentA) = Fin ((cap / 1000) / currentA))"
  by (simp add: estimateRuntime_def Let_def)

text \<open>The theorem at no current, at a negative current and at half an ampere.\<close>

theorem estimateRuntime_cases_witness:
  "hours (estimateRuntime 2000 0) = Infinity \<and> minutes (estimateRuntime 2000 0) = Infinity
   \<and> hours (estimateRuntime 2000 (- 1)) = Infinity
   \<and> hours (estimateRuntime 2000 (1 / 2)) = Fin 4"
  using estimateRuntime_cases [of 0 2000] estimateRuntime_cases [of "- 1" 2000]
    estimateRuntime_cases [of "1 / 2" 2000]
  by simp

section \<open>Claims about the motor speed estimator\<close>

subsection \<open>C9: the estimated speed\<close>

text \<open>The returned rpm in one equation, and the numbers of the two computations below.\<close>

lemma rpm_eq:
  assumes "\<not> falsy (noLoadRPM preset)"
  shows "rpm (estimateSpeed rnd preset i v)
     = Some (Math_round
         (rnd (rnd (the (noLoadRPM preset)
                    * max 0 (rnd (rnd (v - rnd (i * armatureR preset)) / ratedVoltage preset)))
               * min (rnd (v / ratedVoltage preset)) 1.5)))"
  using assms by (simp add: estimateSpeed_def Let_def)

lemma double_backEMF: "round_double (1 / 4 * 3) = 3 / 4"
  by (subst round_double_eval [where n = 53]) (simp_all add: rd_eval)

lemma double_effective: "round_double (3 / 2 - 3 / 4) = 3 / 4"
  by (subst round_double_eval [where n = 53]) (simp_all add: rd_eval)

lemma double_speedRatio: "round_double (3 / 4 / 6) = 1 / 8"
  by (subst round_double_eval [where n = 55]) (simp_all add: rd_eval)

lemma double_voltageRatio: "round_double (3 / 2 / 6) = 1 / 4"
  by (subst round_double_eval [where n = 54]) (simp_all add: rd_eval)

lemma double_rpm1: "round_double (6000 * (1 / 8)) = 750"
  by (subst round_double_eval [where n = 43]) (simp_all add: rd_eval)

lemma double_rpm2: "round_double (750 * (1 / 4)) = 375 / 2"
  by (subst round_double_eval [where n = 45]) (simp_all add: rd_eval)

lemma double_typed_current: "round_double 0.03 = 8646911284551352 / 2 ^ 58"
  by (subst round_double_eval [where n = 58]) (simp_all add: rd_eval)

lemma double_typed_voltage: "round_double 0.3 = 5404319552844595 / 2 ^ 54"
  by (subst round_double_eval [where n = 54]) (simp_all add: rd_eval)

lemma double_typed_backEMF:
  "round_double (8646911284551352 / 2 ^ 58 * 3) = 6485183463413514 / 2 ^ 56"
  by (subst round_double_eval [where n = 56]) (simp_all add: rd_eval)

lemma double_typed_effective:
  "round_double (5404319552844595 / 2 ^ 54 - 6485183463413514 / 2 ^ 56)
     = 7566047373982433 / 2 ^ 55"
  by (subst round_double_eval [where n = 55]) (simp_all add: rd_eval)

lemma double_typed_speedRatio:
  "round_double (7566047373982433 / 2 ^ 55 / 6) = 5044031582654955 / 2 ^ 57"
  by (subst round_double_eval [where n = 57]) (simp_all add: rd_eval)

lemma double_typed_voltageRatio:
  "round_double (5404319552844595 / 2 ^ 54 / 6) = 7205759403792793 / 2 ^ 57"
  by (subst round_double_eval [where n = 57]) (simp_all add: rd_eval)

lemma double_typed_rpm1:
  "round_double (6000 * (5044031582654955 / 2 ^ 57)) = 7388718138654719 / 2 ^ 45"
  by (subst round_double_eval [where n = 45]) (simp_all add: rd_eval)

lemma double_typed_rpm2:
  "round_double (7388718138654719 / 2 ^ 45 * (7205759403792793 / 2 ^ 57))
     = 5910974510923775 / 2 ^ 49"
  by (subst round_double_eval [where n = 49]) (simp_all add: rd_eval)

text \<open>
  Claim C9 as stated says that the returned rpm equals
  \<open>noLoadRPM \<times> speedRatio \<times> voltageRatio\<close> whenever the no-load speed is defined. The
  program returns \<^verbatim>\<open>Math.round\<close> of the product: for the small motor at 0.25 A and
  1.5 V the two ratios are 0.125 and 0.25, the product is 187.5, all of them doubles, and
  the returned rpm is 188. A no-load speed that is defined and zero gives a null rpm, not
  the product 0.
\<close>

theorem estimateSpeed_rounds:
  "noLoadRPM (small_dc_motor round_double) = Some 6000
   \<and> rpm (estimateSpeed round_double (small_dc_motor round_double) (1 / 4) (3 / 2)) = Some 188
   \<and> (6000 :: real)
        * max 0 ((3 / 2 - 1 / 4 * armatureR (small_dc_motor round_double))
                 / ratedVoltage (small_dc_motor round_double))
        * min (3 / 2 / ratedVoltage (small_dc_motor round_double)) 1.5 = 375 / 2
   \<and> rpm (estimateSpeed round_double (small_dc_motor round_double) (1 / 4) (3 / 2))
       \<noteq> Some (375 / 2)
   \<and> noLoadRPM ((small_dc_motor round_double)\<lparr>noLoadRPM := Some 0\<rparr>) = Some 0
   \<and> rpm (estimateSpeed round_double ((small_dc_motor round_double)\<lparr>noLoadRPM := Some 0\<rparr>)
            (1 / 4) (3 / 2)) = None"
proof -
  have f: "noLoadRPM (small_dc_motor round_double) = Some 6000"
    "armatureR (small_dc_motor round_double) = 3"
    "ratedVoltage (small_dc_motor round_double) = 6"
    by (simp_all add: small_dc_motor_def)
  have nf: "\<not> falsy (noLoadRPM (small_dc_motor round_double))"
    by (simp add: f falsy_def)
  have m: "max 0 (1 / 8 :: real) = 1 / 8" "min (1 / 4 :: real) 1.5 = 1 / 4"
    "the (Some (6000 :: real)) = 6000"
    by simp_all
  have r: "rpm (estimateSpeed round_double (small_dc_motor round_double) (1 / 4) (3 / 2))
      = Some (Math_round (375 / 2))"
    by (simp only: rpm_eq [OF nf] f m double_backEMF double_effective double_speedRatio
        double_voltageRatio double_rpm1 double_rpm2)
  have mr: "Math_round (375 / 2) = 188"
    by (simp add: Math_round_def)
  have z: "rpm (estimateSpeed round_double ((small_dc_motor round_double)\<lparr>noLoadRPM := Some 0\<rparr>)
            (1 / 4) (3 / 2)) = None"
    by (simp add: estimateSpeed_def falsy_def)
  show ?thesis
    by (simp add: r mr z f)
qed

text \<open>
  Claim C9, as amended. For a preset whose no-load speed is defined and nonzero, and
  whose rated voltage is nonzero, the returned rpm is \<^verbatim>\<open>Math.round\<close> of
  \<open>noLoadRPM \<times> speedRatio \<times> voltageRatio\<close>, where
  \<open>voltageRatio = min (supplyVoltage / ratedVoltage) 1.5\<close> and
  \<open>speedRatio = max 0 ((supplyVoltage - current \<times> armatureR) / ratedVoltage)\<close>, the
  products, the difference and the quotients being the ones the program computes, each
  rounded by \<open>rnd\<close>; the statement holds for every \<open>rnd\<close>. For a preset whose no-load
  speed is null or zero, the returned rpm is null.
\<close>

theorem estimateSpeed_rpm:
  "(noLoadRPM preset = Some n \<and> n \<noteq> 0 \<and> ratedVoltage preset \<noteq> 0 \<longrightarrow>
      rpm (estimateSpeed rnd preset i v)
        = Some (Math_round
            (rnd (rnd (n * max 0 (rnd (rnd (v - rnd (i * armatureR preset)) / ratedVoltage preset)))
                  * min (rnd (v / ratedVoltage preset)) 1.5))))
   \<and> (noLoadRPM preset = None \<or> noLoadRPM preset = Some 0 \<longrightarrow>
        rpm (estimateSpeed rnd preset i v) = None)"
  by (auto simp add: estimateSpeed_def falsy_def Let_def)

text \<open>
  The theorem in the arithmetic of doubles, at the small motor with the typed inputs
  0.03 A and 0.3 V: the computed product is 10.499999999999998, below the exact 10.5, and
  the returned rpm is 10. At the demonstration coil the rpm is null.
\<close>

theorem estimateSpeed_rpm_witness:
  "noLoadRPM (small_dc_motor round_double) = Some 6000
   \<and> ratedVoltage (small_dc_motor round_double) \<noteq> 0
   \<and> rpm (estimateSpeed round_double (small_dc_motor round_double)
            (round_double 0.03) (round_double 0.3)) = Some 10
   \<and> noLoadRPM (demo_solenoid round_double) = None
   \<and> rpm (estimateSpeed round_double (demo_solenoid round_double) 1 6) = None"
proof -
  have f: "noLoadRPM (small_dc_motor round_double) = Some 6000"
    "armatureR (small_dc_motor round_double) = 3"
    "ratedVoltage (small_dc_motor round_double) = 6"
    by (simp_all add: small_dc_motor_def)
  have h: "noLoadRPM (small_dc_motor round_double) = Some 6000 \<and> (6000 :: real) \<noteq> 0
      \<and> ratedVoltage (small_dc_motor round_double) \<noteq> 0"
    by (simp add: f)
  have m: "max 0 (5044031582654955 / 2 ^ 57 :: real) = 5044031582654955 / 2 ^ 57"
    "min (7205759403792793 / 2 ^ 57 :: real) 1.5 = 7205759403792793 / 2 ^ 57"
    by simp_all
  have mr: "Math_round (5910974510923775 / 2 ^ 49) = 10"
    by (simp add: Math_round_def)
  have "rpm (estimateSpeed round_double (small_dc_motor round_double)
            (round_double 0.03) (round_double 0.3))
      = Some (Math_round
          (round_double (round_double (6000 * max 0 (round_double (round_double (round_double 0.3
               - round_double (round_double 0.03 * armatureR (small_dc_motor round_double)))
               / ratedVoltage (small_dc_motor round_double))))
             * min (round_double (round_double 0.3 / ratedVoltage (small_dc_motor round_double))) 1.5)))"
    using estimateSpeed_rpm [of "small_dc_motor round_double" 6000 round_double
        "round_double 0.03" "round_double 0.3"] h
    by blast
  then have r: "rpm (estimateSpeed round_double (small_dc_motor round_double)
            (round_double 0.03) (round_double 0.3)) = Some 10"
    by (simp only: f m mr double_typed_current double_typed_voltage double_typed_backEMF
        double_typed_effective double_typed_speedRatio double_typed_voltageRatio
        double_typed_rpm1 double_typed_rpm2)
  have d: "noLoadRPM (demo_solenoid round_double) = None"
    by (simp add: demo_solenoid_def)
  have "rpm (estimateSpeed round_double (demo_solenoid round_double) 1 6) = None"
    using estimateSpeed_rpm [of "demo_solenoid round_double" 0 round_double 1 6] d
    by blast
  then show ?thesis
    using r d f by simp
qed

end
